theory Spec2Isabelle
  imports Main "HOL-Library.AList" "HOL-Library.Multiset" "HOL-Library.List_Lexorder"
    "HOL-Library.Char_ord"
begin

section \<open>Python values, exceptions and the library routines the code calls\<close>

text \<open>
  The dashboard's data layer (\<^verbatim>\<open>data_loader.py\<close>), its refresh script
  (\<^verbatim>\<open>scripts/update_data.py\<close>) and the start-up code of \<^verbatim>\<open>app.py\<close> are embedded
  as functions on explicit state. A Python call that may raise returns \<open>exn + 'a\<close>:
  \<open>Inl e\<close> is the raised exception, \<open>Inr v\<close> the returned value. The type \<open>exn\<close> stands
  for the subclasses of \<^verbatim>\<open>Exception\<close>, which is what \<^verbatim>\<open>except Exception\<close> and the
  library calls of the code are about.
\<close>

datatype exn =
    FileNotFoundError
  | JSONDecodeError
  | ParserError
  | KeyError string
  | IndexError
  | ValueError
  | TypeError
  | ConnectionError
  | Timeout
  | HTTPError int
  | OtherException string

text \<open>
  Floating-point numbers are kept abstract: \<open>'f\<close> is the type of Python floats, and every
  operation on them is a routine of the library record below.
\<close>

datatype 'f json =
    JNull
  | JBool bool
  | JInt int
  | JFloat 'f
  | JStr string
  | JArr "'f json list"
  | JObj "(string \<times> 'f json) list"

text \<open>A cell of a pandas DataFrame read from CSV, and the frame: header and rows in order.\<close>

datatype 'f cell = CBool bool | CInt int | CFloat 'f | CStr string

record 'f dataframe =
  df_columns :: "string list"
  df_rows :: "'f cell list list"

record response =
  status_code :: int
  body_text :: string

text \<open>
  What the code takes from \<^verbatim>\<open>json\<close>, \<^verbatim>\<open>pandas\<close>, numpy and the Python built-ins:
  parsers, conversions between floats, integers and strings, the comparison of a float
  with an integer, the argsort behind \<^verbatim>\<open>sort_values\<close>, \<^verbatim>\<open>Series.sum\<close> and the
  number format \<^verbatim>\<open>,.0f\<close>. They are parameters; every theorem holds for each choice.
\<close>

record 'f pylib =
  json_loads :: "string \<Rightarrow> exn + 'f json"
  csv_parse :: "string \<Rightarrow> exn + 'f dataframe"
  float_of_int :: "int \<Rightarrow> 'f"
  float_of_str :: "string \<Rightarrow> exn + 'f"
  int_of_float :: "'f \<Rightarrow> exn + int"
  int_of_str :: "string \<Rightarrow> exn + int"
  float_eq_int :: "'f \<Rightarrow> int \<Rightarrow> bool"
  float_truthy :: "'f \<Rightarrow> bool"
  argsort_desc :: "'f cell list \<Rightarrow> exn + nat list"
  series_sum :: "'f cell list \<Rightarrow> exn + 'f cell"
  format_total :: "'f cell \<Rightarrow> exn + string"

text \<open>
  The environment of a loader call: the library, the files under the working directory
  (path to content, \<open>None\<close> when the file is absent) and the outcome of
  \<^verbatim>\<open>requests.get(url, timeout=t)\<close>.
\<close>

record 'f env =
  lib :: "'f pylib"
  files :: "string \<Rightarrow> string option"
  http_get :: "string \<Rightarrow> nat \<Rightarrow> exn + response"

subsection \<open>Sequencing and \<^verbatim>\<open>try\<close>/\<^verbatim>\<open>except\<close>\<close>

definition bindE :: "exn + 'a \<Rightarrow> ('a \<Rightarrow> exn + 'b) \<Rightarrow> exn + 'b" where
  "bindE m k = (case m of Inl e \<Rightarrow> Inl e | Inr v \<Rightarrow> k v)"

definition try_except :: "exn + 'a \<Rightarrow> (exn \<Rightarrow> exn + 'a) \<Rightarrow> exn + 'a" where
  "try_except body handler = (case body of Inl e \<Rightarrow> handler e | Inr v \<Rightarrow> Inr v)"

primrec foldE :: "('s \<Rightarrow> 'a \<Rightarrow> exn + 's) \<Rightarrow> 'a list \<Rightarrow> 's \<Rightarrow> exn + 's" where
  "foldE step [] s = Inr s"
| "foldE step (x # xs) s = (case step s x of Inl e \<Rightarrow> Inl e | Inr s' \<Rightarrow> foldE step xs s')"

subsection \<open>Files, requests and DataFrame operations\<close>

definition open_read :: "'f env \<Rightarrow> string \<Rightarrow> exn + string" where
  "open_read w path = (case files w path of None \<Rightarrow> Inl FileNotFoundError | Some s \<Rightarrow> Inr s)"

definition json_load_file :: "'f env \<Rightarrow> string \<Rightarrow> exn + 'f json" where
  "json_load_file w path = bindE (open_read w path) (json_loads (lib w))"

definition pd_read_csv :: "'f env \<Rightarrow> string \<Rightarrow> exn + 'f dataframe" where
  "pd_read_csv w path = bindE (open_read w path) (csv_parse (lib w))"

definition raise_for_status :: "response \<Rightarrow> exn + unit" where
  "raise_for_status r =
     (if 400 \<le> status_code r \<and> status_code r < 600 then Inl (HTTPError (status_code r))
      else Inr ())"

definition response_json :: "'f pylib \<Rightarrow> response \<Rightarrow> exn + 'f json" where
  "response_json l r = json_loads l (body_text r)"

definition empty_df :: "'f dataframe" where
  "empty_df = \<lparr>df_columns = [], df_rows = []\<rparr>"

definition df_empty :: "'f dataframe \<Rightarrow> bool" where
  "df_empty df = (df_rows df = [] \<or> df_columns df = [])"

definition row_cell :: "string list \<Rightarrow> 'f cell list \<Rightarrow> string \<Rightarrow> 'f cell option" where
  "row_cell cols r c = map_of (zip cols r) c"

definition row_getitem :: "string list \<Rightarrow> 'f cell list \<Rightarrow> string \<Rightarrow> exn + 'f cell" where
  "row_getitem cols r c = (case row_cell cols r c of None \<Rightarrow> Inl (KeyError c) | Some v \<Rightarrow> Inr v)"

definition df_getitem :: "'f dataframe \<Rightarrow> string \<Rightarrow> exn + 'f cell list" where
  "df_getitem df c =
     (if c \<in> set (df_columns df)
      then (case those (map (\<lambda>r. row_cell (df_columns df) r c) (df_rows df)) of
              None \<Rightarrow> Inl (KeyError c) | Some vs \<Rightarrow> Inr vs)
      else Inl (KeyError c))"

fun cell_eq_int :: "'f pylib \<Rightarrow> 'f cell \<Rightarrow> int \<Rightarrow> bool" where
  "cell_eq_int l (CBool b) y = ((if b then 1 else 0) = y)"
| "cell_eq_int l (CInt i) y = (i = y)"
| "cell_eq_int l (CFloat f) y = float_eq_int l f y"
| "cell_eq_int l (CStr s) y = False"

fun cell_eq_str :: "'f cell \<Rightarrow> string \<Rightarrow> bool" where
  "cell_eq_str (CStr s) t = (s = t)"
| "cell_eq_str _ t = False"

definition row_matches :: "string list \<Rightarrow> string \<Rightarrow> ('f cell \<Rightarrow> bool) \<Rightarrow> 'f cell list \<Rightarrow> bool" where
  "row_matches cols c p r = (case row_cell cols r c of None \<Rightarrow> False | Some v \<Rightarrow> p v)"

definition df_where :: "'f dataframe \<Rightarrow> string \<Rightarrow> ('f cell \<Rightarrow> bool) \<Rightarrow> exn + 'f dataframe" where
  "df_where df c p =
     (if c \<in> set (df_columns df)
      then Inr (df\<lparr>df_rows := filter (row_matches (df_columns df) c p) (df_rows df)\<rparr>)
      else Inl (KeyError c))"

fun py_int :: "'f pylib \<Rightarrow> 'f cell \<Rightarrow> exn + int" where
  "py_int l (CBool b) = Inr (if b then 1 else 0)"
| "py_int l (CInt i) = Inr i"
| "py_int l (CFloat f) = int_of_float l f"
| "py_int l (CStr s) = int_of_str l s"

fun py_float :: "'f pylib \<Rightarrow> 'f cell \<Rightarrow> exn + 'f" where
  "py_float l (CBool b) = Inr (float_of_int l (if b then 1 else 0))"
| "py_float l (CInt i) = Inr (float_of_int l i)"
| "py_float l (CFloat f) = Inr f"
| "py_float l (CStr s) = float_of_str l s"

section \<open>\<^verbatim>\<open>data_loader.py\<close>: class \<^verbatim>\<open>DataLoader\<close>\<close>

text \<open>
  Every loader is the sequence of the source's \<^verbatim>\<open>try\<close> blocks. What \<^verbatim>\<open>print\<close> writes
  to the console is not part of the returned value and is left out. Python's \<^verbatim>\<open>None\<close>
  is \<open>JNull\<close> where the loader returns JSON, and \<open>None\<close> where it returns the artist
  record.
\<close>

definition CZSO_API_URL :: string where
  "CZSO_API_URL = ''https://data.csu.gov.cz/api/katalog/v1''"

definition czso_probe :: "'f env \<Rightarrow> exn + unit" where
  "czso_probe w =
     bindE (http_get w (CZSO_API_URL @ ''/sady/mzdy/ukazatele'') 3)
       (\<lambda>response. if status_code response = 200 then Inr () else Inr ())"

definition economic_fallback :: "'f env \<Rightarrow> exn + 'f json" where
  "economic_fallback w = json_load_file w ''data/fallback_economics.json''"

definition load_economic_indicators :: "'f env \<Rightarrow> exn + 'f json" where
  "load_economic_indicators w =
     bindE (try_except (czso_probe w) (\<lambda>e. Inr ()))
       (\<lambda>_. try_except (economic_fallback w) (\<lambda>e. Inr JNull))"

text \<open>
  The first \<^verbatim>\<open>try\<close> block of \<^verbatim>\<open>load_unesco_sites\<close> prints a line and defines the local
  function \<^verbatim>\<open>parse_wkt_point\<close>, which nothing calls: no request is made.
\<close>

definition nkod_probe :: "'f env \<Rightarrow> exn + unit" where
  "nkod_probe w = Inr ()"

definition unesco_fallback :: "'f env \<Rightarrow> exn + 'f dataframe" where
  "unesco_fallback w = pd_read_csv w ''data/fallback_unesco.csv''"

definition load_unesco_sites :: "'f env \<Rightarrow> exn + 'f dataframe" where
  "load_unesco_sites w =
     bindE (try_except (nkod_probe w) (\<lambda>e. Inr ()))
       (\<lambda>_. try_except (unesco_fallback w) (\<lambda>e. Inr empty_df))"

definition budget_body :: "'f env \<Rightarrow> int \<Rightarrow> exn + 'f dataframe" where
  "budget_body w year =
     bindE (pd_read_csv w ''data/budget_official.csv'')
       (\<lambda>df. df_where df ''Year'' (\<lambda>v. cell_eq_int (lib w) v year))"

definition load_budget :: "'f env \<Rightarrow> int \<Rightarrow> exn + 'f dataframe" where
  "load_budget w year = try_except (budget_body w year) (\<lambda>e. Inr empty_df)"

text \<open>
  \<^verbatim>\<open>load_nameday\<close>: \<^verbatim>\<open>data and len(data) > 0\<close>, then \<^verbatim>\<open>data[0]['name']\<close>, on whatever
  JSON value the service sent.
\<close>

fun truthy :: "'f pylib \<Rightarrow> 'f json \<Rightarrow> bool" where
  "truthy l JNull = False"
| "truthy l (JBool b) = b"
| "truthy l (JInt i) = (i \<noteq> 0)"
| "truthy l (JFloat f) = float_truthy l f"
| "truthy l (JStr s) = (s \<noteq> [])"
| "truthy l (JArr xs) = (xs \<noteq> [])"
| "truthy l (JObj kvs) = (kvs \<noteq> [])"

fun py_len :: "'f json \<Rightarrow> exn + nat" where
  "py_len (JStr s) = Inr (length s)"
| "py_len (JArr xs) = Inr (length xs)"
| "py_len (JObj kvs) = Inr (length kvs)"
| "py_len _ = Inl TypeError"

fun getitem_0 :: "'f json \<Rightarrow> exn + 'f json" where
  "getitem_0 (JArr []) = Inl IndexError"
| "getitem_0 (JArr (x # xs)) = Inr x"
| "getitem_0 (JStr []) = Inl IndexError"
| "getitem_0 (JStr (c # cs)) = Inr (JStr [c])"
| "getitem_0 (JObj kvs) = Inl (KeyError ''0'')"
| "getitem_0 _ = Inl TypeError"

fun getitem_key :: "'f json \<Rightarrow> string \<Rightarrow> exn + 'f json" where
  "getitem_key (JObj kvs) k = (case map_of kvs k of None \<Rightarrow> Inl (KeyError k) | Some v \<Rightarrow> Inr v)"
| "getitem_key _ k = Inl TypeError"

definition nameday_body :: "'f env \<Rightarrow> exn + 'f json" where
  "nameday_body w =
     bindE (http_get w ''https://svatky.adresa.info/json'' 3) (\<lambda>response.
     bindE (raise_for_status response) (\<lambda>_.
     bindE (response_json (lib w) response) (\<lambda>data.
     bindE (if truthy (lib w) data then bindE (py_len data) (\<lambda>n. Inr (n > 0)) else Inr False)
       (\<lambda>nonempty.
          if nonempty then bindE (getitem_0 data) (\<lambda>first. getitem_key first ''name'')
          else Inr (JStr ''Unknown'')))))"

definition load_nameday :: "'f env \<Rightarrow> exn + 'f json" where
  "load_nameday w = try_except (nameday_body w) (\<lambda>e. Inr JNull)"

text \<open>
  \<^verbatim>\<open>load_artist_status\<close>: the request to the sheet is commented out, so the first
  \<^verbatim>\<open>try\<close> block is \<^verbatim>\<open>pass\<close>. The dictionary \<^verbatim>\<open>disciplines\<close> keeps insertion order; a
  key met again is overwritten in place.
\<close>

record 'f artist_status =
  registered_count :: int
  disciplines :: "('f cell \<times> 'f) list"

definition artist_probe :: "'f env \<Rightarrow> exn + unit" where
  "artist_probe w = Inr ()"

definition discipline_step ::
  "'f pylib \<Rightarrow> string list \<Rightarrow> ('f cell \<times> 'f) list \<Rightarrow> 'f cell list \<Rightarrow> exn + ('f cell \<times> 'f) list" where
  "discipline_step l cols d row =
     bindE (row_getitem cols row ''indicator'') (\<lambda>ind.
       if \<not> cell_eq_str ind ''registered_count''
       then try_except
              (bindE (row_getitem cols row ''value'') (\<lambda>v.
               bindE (py_float l v) (\<lambda>x.
               bindE (row_getitem cols row ''indicator'') (\<lambda>k. Inr (AList.update k x d)))))
              (\<lambda>e. Inr d)
       else Inr d)"

definition registered_count_of :: "'f pylib \<Rightarrow> 'f dataframe \<Rightarrow> exn + int" where
  "registered_count_of l reg_row =
     (if \<not> df_empty reg_row
      then (case df_rows reg_row of
              [] \<Rightarrow> Inl IndexError
            | r # _ \<Rightarrow> bindE (row_getitem (df_columns reg_row) r ''value'') (py_int l))
      else Inr 0)"

definition artist_body :: "'f env \<Rightarrow> exn + 'f artist_status option" where
  "artist_body w =
     bindE (pd_read_csv w ''data/fallback_artists.csv'') (\<lambda>df.
     bindE (df_where df ''indicator'' (\<lambda>v. cell_eq_str v ''registered_count'')) (\<lambda>reg_row.
     bindE (registered_count_of (lib w) reg_row) (\<lambda>rc.
     bindE (foldE (discipline_step (lib w) (df_columns df)) (df_rows df) []) (\<lambda>ds.
       Inr (Some \<lparr>registered_count = rc, disciplines = ds\<rparr>)))))"

definition load_artist_status :: "'f env \<Rightarrow> exn + 'f artist_status option" where
  "load_artist_status w =
     bindE (try_except (artist_probe w) (\<lambda>e. Inr ()))
       (\<lambda>_. try_except (artist_body w) (\<lambda>e. Inr None))"

text \<open>
  The decorators \<^verbatim>\<open>@st.cache_data(ttl=...)\<close> of the five loaders, in seconds, and the
  loader behind each dataset name.
\<close>

datatype dataset = Economic_indicators | Unesco_sites | Budget int | Nameday | Artist_status

fun ttl :: "dataset \<Rightarrow> int" where
  "ttl Economic_indicators = 86400"
| "ttl Unesco_sites = 604800"
| "ttl (Budget year) = 86400"
| "ttl Nameday = 3600"
| "ttl Artist_status = 86400"

datatype 'f loaded =
    Loaded_json "'f json"
  | Loaded_frame "'f dataframe"
  | Loaded_artist "'f artist_status option"

fun resolve :: "'f env \<Rightarrow> dataset \<Rightarrow> exn + 'f loaded" where
  "resolve w Economic_indicators = bindE (load_economic_indicators w) (\<lambda>v. Inr (Loaded_json v))"
| "resolve w Unesco_sites = bindE (load_unesco_sites w) (\<lambda>v. Inr (Loaded_frame v))"
| "resolve w (Budget year) = bindE (load_budget w year) (\<lambda>v. Inr (Loaded_frame v))"
| "resolve w Nameday = bindE (load_nameday w) (\<lambda>v. Inr (Loaded_json v))"
| "resolve w Artist_status = bindE (load_artist_status w) (\<lambda>v. Inr (Loaded_artist v))"

section \<open>\<^verbatim>\<open>scripts/update_data.py\<close>: the daily refresh\<close>

text \<open>
  The script acts on the files, the live sources and the log. Its statements are actions
  on this state; an exception leaves the state as it was when raised. \<open>stat_fault\<close> lets
  the environment make \<^verbatim>\<open>os.path.exists\<close> raise, the one system call inside a
  \<^verbatim>\<open>try\<close> block of the script: the theorems hold whether it does or not.
\<close>

datatype level = INFO | WARNING | ERROR

datatype log_record = Log level string | Log_exn level string exn

record world =
  fs :: "string \<Rightarrow> string option"
  stat_fault :: "string \<Rightarrow> exn option"
  live :: "string \<Rightarrow> nat \<Rightarrow> exn + response"
  logged :: "log_record list"

definition bindS ::
  "(world \<Rightarrow> (exn + 'a) \<times> world) \<Rightarrow> ('a \<Rightarrow> world \<Rightarrow> (exn + 'b) \<times> world)
     \<Rightarrow> world \<Rightarrow> (exn + 'b) \<times> world" where
  "bindS m k w = (case m w of (Inl e, w') \<Rightarrow> (Inl e, w') | (Inr v, w') \<Rightarrow> k v w')"

definition try_exceptS ::
  "(world \<Rightarrow> (exn + 'a) \<times> world) \<Rightarrow> (exn \<Rightarrow> world \<Rightarrow> (exn + 'a) \<times> world)
     \<Rightarrow> world \<Rightarrow> (exn + 'a) \<times> world" where
  "try_exceptS body handler w =
     (case body w of (Inl e, w') \<Rightarrow> handler e w' | (Inr v, w') \<Rightarrow> (Inr v, w'))"

definition logger_log :: "level \<Rightarrow> string \<Rightarrow> world \<Rightarrow> (exn + unit) \<times> world" where
  "logger_log lv msg w = (Inr (), w\<lparr>logged := logged w @ [Log lv msg]\<rparr>)"

definition logger_error :: "string \<Rightarrow> exn \<Rightarrow> world \<Rightarrow> (exn + unit) \<times> world" where
  "logger_error msg e w = (Inr (), w\<lparr>logged := logged w @ [Log_exn ERROR msg e]\<rparr>)"

definition os_path_exists :: "string \<Rightarrow> world \<Rightarrow> (exn + bool) \<times> world" where
  "os_path_exists p w =
     (case stat_fault w p of Some e \<Rightarrow> (Inl e, w) | None \<Rightarrow> (Inr (fs w p \<noteq> None), w))"

definition os_path_join :: "string \<Rightarrow> string \<Rightarrow> string" where
  "os_path_join a b =
     (if b \<noteq> [] \<and> hd b = CHR ''/'' then b
      else if a = [] \<or> last a = CHR ''/'' then a @ b
      else a @ ''/'' @ b)"

definition dict_getitem :: "(string \<times> 'v) list \<Rightarrow> string \<Rightarrow> world \<Rightarrow> (exn + 'v) \<times> world" where
  "dict_getitem d k w = (case map_of d k of None \<Rightarrow> (Inl (KeyError k), w) | Some v \<Rightarrow> (Inr v, w))"

definition DATA_URLS :: "(string \<times> string) list" where
  "DATA_URLS =
     [(''unesco'', ''https://data.gov.cz/some/generic/path/unesco.csv''),
      (''economics'', ''https://data.csu.gov.cz/api/katalog/v1/wages''),
      (''artists'', ''https://docs.google.com/spreadsheets/d/e/2PACX-1vR_placeholder_id/pub?output=csv'')]"

text \<open>
  \<open>data_dir\<close> is the module constant \<^verbatim>\<open>DATA_DIR\<close>, fixed at import from the place of
  the script. In all three functions the request and the write to \<open>target_path\<close> are
  comments of the source, so neither \<open>live\<close> nor a write appears below.
\<close>

definition fetch_unesco_data :: "string \<Rightarrow> world \<Rightarrow> (exn + unit) \<times> world" where
  "fetch_unesco_data data_dir =
     bindS (dict_getitem DATA_URLS ''unesco'') (\<lambda>url.
       let target_path = os_path_join data_dir ''fallback_unesco.csv'' in
       try_exceptS
         (bindS (logger_log INFO (''Fetching UNESCO data from '' @ url @ ''...'')) (\<lambda>_.
          bindS (os_path_exists target_path) (\<lambda>found.
            if found then logger_log INFO ''Local UNESCO file verified.''
            else logger_log WARNING ''No local UNESCO file found.'')))
         (logger_error ''Failed to update UNESCO data: ''))"

definition fetch_economic_data :: "string \<Rightarrow> world \<Rightarrow> (exn + unit) \<times> world" where
  "fetch_economic_data data_dir =
     bindS (dict_getitem DATA_URLS ''economics'') (\<lambda>url.
       let target_path = os_path_join data_dir ''fallback_economics.json'' in
       try_exceptS
         (bindS (logger_log INFO (''Fetching Economic data from '' @ url @ ''...'')) (\<lambda>_.
          logger_log INFO ''Economic data processing skipped (placeholder URL).''))
         (logger_error ''Failed to update Economic data: ''))"

definition fetch_artist_data :: "string \<Rightarrow> world \<Rightarrow> (exn + unit) \<times> world" where
  "fetch_artist_data data_dir =
     bindS (dict_getitem DATA_URLS ''artists'') (\<lambda>url.
       let target_path = os_path_join data_dir ''fallback_artists.csv'' in
       try_exceptS
         (bindS (logger_log INFO (''Fetching Artist data from '' @ url @ ''...'')) (\<lambda>_.
          logger_log INFO ''Artist data processing skipped (placeholder URL).''))
         (logger_error ''Failed to update Artist data: ''))"

definition update_all_data :: "string \<Rightarrow> world \<Rightarrow> (exn + unit) \<times> world" where
  "update_all_data data_dir =
     bindS (logger_log INFO ''Starting daily data update...'') (\<lambda>_.
     bindS (fetch_unesco_data data_dir) (\<lambda>_.
     bindS (fetch_economic_data data_dir) (\<lambda>_.
     bindS (fetch_artist_data data_dir) (\<lambda>_.
     logger_log INFO ''Daily data update completed.''))))"

text \<open>
  A state for one refresh run: both snapshot files present, the economics source
  answering 200 with a new document, every other request failing to connect.
\<close>

definition refresh_example :: world where
  "refresh_example =
     \<lparr>fs = [''data/fallback_unesco.csv'' \<mapsto> ''name,lat,lon'',
             ''data/fallback_economics.json'' \<mapsto> ''{avg_monthly_wage: 28500}''],
      stat_fault = (\<lambda>p. None),
      live = (\<lambda>url t.
        if url = ''https://data.csu.gov.cz/api/katalog/v1/wages''
        then Inr \<lparr>status_code = 200, body_text = ''{avg_monthly_wage: 30000}''\<rparr>
        else Inl ConnectionError),
      logged = []\<rparr>"

section \<open>\<^verbatim>\<open>app.py\<close>: scheduler start-up, heritage table and budget total\<close>

text \<open>
  The first lines of the script. A \<^verbatim>\<open>BackgroundScheduler\<close> holds its jobs (function
  name, hour, minute of the cron trigger); the process holds the schedulers created so
  far, the registered \<^verbatim>\<open>atexit\<close> hooks (each shuts one scheduler down) and, for every
  session, its \<^verbatim>\<open>st.session_state\<close>. Streamlit runs the whole script once per run of a
  session and keeps one \<^verbatim>\<open>session_state\<close> per session; a new session starts with an
  empty one.
\<close>

record scheduler =
  jobs :: "(string \<times> int \<times> int) list"
  running :: bool

record process =
  schedulers :: "scheduler list"
  atexit_hooks :: "nat list"
  session_state :: "nat \<Rightarrow> (string \<times> bool) list"

definition init_scheduler :: "process \<Rightarrow> process" where
  "init_scheduler p =
     (let scheduler = \<lparr>jobs = [], running = False\<rparr>;
          scheduler = scheduler\<lparr>jobs := jobs scheduler @ [(''update_all_data'', 6, 0)]\<rparr>;
          scheduler = scheduler\<lparr>running := True\<rparr>
      in p\<lparr>schedulers := schedulers p @ [scheduler],
            atexit_hooks := atexit_hooks p @ [length (schedulers p)]\<rparr>)"

definition app_startup :: "nat \<Rightarrow> process \<Rightarrow> process" where
  "app_startup sid p =
     (if map_of (session_state p sid) ''scheduler_started'' = None
      then (let p' = init_scheduler p
            in p'\<lparr>session_state := (session_state p')
                  (sid := AList.update ''scheduler_started'' True (session_state p' sid))\<rparr>)
      else p)"

definition fresh_process :: process where
  "fresh_process = \<lparr>schedulers = [], atexit_hooks = [], session_state = (\<lambda>sid. [])\<rparr>"

text \<open>The script runs of a process, each named by the session it belongs to.\<close>

primrec run_scripts :: "nat list \<Rightarrow> process \<Rightarrow> process" where
  "run_scripts [] p = p"
| "run_scripts (sid # sids) p = run_scripts sids (app_startup sid p)"

text \<open>
  Module B, the table of top sites:
  \<^verbatim>\<open>sites_df[["name", visitor_col, "renovation_roi"]].sort_values(visitor_col, ascending=False).head(5)\<close>.
  \<^verbatim>\<open>sort_values\<close> takes the rows at the positions the library's argsort returns for the
  column. The map drawn above the table is rendering and is left out.
\<close>

definition df_select :: "'f dataframe \<Rightarrow> string list \<Rightarrow> exn + 'f dataframe" where
  "df_select df cs =
     (case filter (\<lambda>c. c \<notin> set (df_columns df)) cs of
        c # _ \<Rightarrow> Inl (KeyError c)
      | [] \<Rightarrow>
          (case those (map (\<lambda>r. those (map (row_cell (df_columns df) r) cs)) (df_rows df)) of
             None \<Rightarrow> Inl (KeyError (hd cs))
           | Some rs \<Rightarrow> Inr \<lparr>df_columns = cs, df_rows = rs\<rparr>))"

definition take_rows :: "'a list \<Rightarrow> nat list \<Rightarrow> exn + 'a list" where
  "take_rows xs idx =
     (if list_all (\<lambda>i. i < length xs) idx then Inr (map (nth xs) idx) else Inl IndexError)"

definition sort_values_desc :: "'f pylib \<Rightarrow> 'f dataframe \<Rightarrow> string \<Rightarrow> exn + 'f dataframe" where
  "sort_values_desc l df c =
     bindE (df_getitem df c) (\<lambda>keys.
     bindE (argsort_desc l keys) (\<lambda>idx.
     bindE (take_rows (df_rows df) idx) (\<lambda>rs. Inr (df\<lparr>df_rows := rs\<rparr>))))"

definition df_head :: "nat \<Rightarrow> 'f dataframe \<Rightarrow> 'f dataframe" where
  "df_head n df = df\<lparr>df_rows := take n (df_rows df)\<rparr>"

definition top_sites :: "'f pylib \<Rightarrow> 'f dataframe \<Rightarrow> exn + 'f dataframe" where
  "top_sites l sites_df =
     bindE (df_select sites_df [''name'', ''visitors_2024'', ''renovation_roi'']) (\<lambda>t.
     bindE (sort_values_desc l t ''visitors_2024'') (\<lambda>s. Inr (df_head 5 s)))"





section \<open>Sample library and inputs\<close>

text \<open>
  A small instance of the library record, used to run the definitions on concrete
  inputs: floats are the whole numbers and NaN, the parsers are tables from a file's or
  a response's text to the parsed document, the argsort is a stable sort of integer
  keys in descending order.
\<close>

datatype sample_float = Whole int | NaN

definition parse_table :: "(string \<times> 'a) list \<Rightarrow> exn \<Rightarrow> string \<Rightarrow> exn + 'a" where
  "parse_table t e s = (case map_of t s of None \<Rightarrow> Inl e | Some v \<Rightarrow> Inr v)"

fun sample_int_of_float :: "sample_float \<Rightarrow> exn + int" where
  "sample_int_of_float (Whole i) = Inr i"
| "sample_int_of_float NaN = Inl ValueError"

fun sample_float_eq_int :: "sample_float \<Rightarrow> int \<Rightarrow> bool" where
  "sample_float_eq_int (Whole i) y = (i = y)"
| "sample_float_eq_int NaN y = False"

fun sample_float_truthy :: "sample_float \<Rightarrow> bool" where
  "sample_float_truthy (Whole i) = (i \<noteq> 0)"
| "sample_float_truthy NaN = True"

fun int_keys :: "'f cell list \<Rightarrow> int list option" where
  "int_keys [] = Some []"
| "int_keys (CInt i # cs) = (case int_keys cs of None \<Rightarrow> None | Some ks \<Rightarrow> Some (i # ks))"
| "int_keys (_ # cs) = None"

definition stable_argsort_desc :: "'f cell list \<Rightarrow> exn + nat list" where
  "stable_argsort_desc cs =
     (case int_keys cs of
        None \<Rightarrow> Inl TypeError
      | Some ks \<Rightarrow> Inr (sort_key (\<lambda>i. - (ks ! i)) [0..<length ks]))"

definition int_series_sum :: "'f cell list \<Rightarrow> exn + 'f cell" where
  "int_series_sum cs =
     (case int_keys cs of None \<Rightarrow> Inl TypeError | Some ks \<Rightarrow> Inr (CInt (sum_list ks)))"

definition sample_lib ::
  "(string \<times> sample_float json) list \<Rightarrow> (string \<times> sample_float dataframe) list
     \<Rightarrow> sample_float pylib" where
  "sample_lib json_docs csv_docs =
     \<lparr>json_loads = parse_table json_docs JSONDecodeError,
      csv_parse = parse_table csv_docs ParserError,
      float_of_int = Whole,
      float_of_str = parse_table [(''40'', Whole 40), (''35'', Whole 35), (''25'', Whole 25),
                                  (''nan'', NaN)] ValueError,
      int_of_float = sample_int_of_float,
      int_of_str = parse_table [(''125'', 125), (''40'', 40), (''35'', 35), (''25'', 25)] ValueError,
      float_eq_int = sample_float_eq_int,
      float_truthy = sample_float_truthy,
      argsort_desc = stable_argsort_desc,
      series_sum = int_series_sum,
      format_total = (\<lambda>c. if c = CInt 3500 then Inr ''3,500'' else Inl ValueError)\<rparr>"

text \<open>
  What the claims call a failed probe: the request raised (connection error, timeout),
  or the response's status is not 200.
\<close>

definition probe_failed :: "exn + response \<Rightarrow> bool" where
  "probe_failed p = (case p of Inl e \<Rightarrow> True | Inr r \<Rightarrow> status_code r \<noteq> 200)"

text \<open>The economics snapshot of the scenario, with every request failing to connect.\<close>

definition economics_example :: "sample_float env" where
  "economics_example =
     \<lparr>lib = sample_lib
        [(''{avg_monthly_wage: 28500, culture_share_gdp: 1}'',
          JObj [(''avg_monthly_wage'', JInt 28500), (''culture_share_gdp'', JInt 1)])] [],
      files = [''data/fallback_economics.json'' \<mapsto> ''{avg_monthly_wage: 28500, culture_share_gdp: 1}''],
      http_get = (\<lambda>url t. Inl ConnectionError)\<rparr>"

text \<open>The name-day service answering with \<open>outcome\<close>; no file exists.\<close>

definition nameday_example :: "exn + response \<Rightarrow> sample_float env" where
  "nameday_example outcome =
     \<lparr>lib = sample_lib
        [(''[{date: 2112, name: Natalie}]'',
          JArr [JObj [(''date'', JStr ''2112''), (''name'', JStr ''Natalie'')]]),
         (''[]'', JArr [])] [],
      files = Map.empty,
      http_get = (\<lambda>url t.
        if url = ''https://svatky.adresa.info/json'' \<and> t = 3 then outcome
        else Inl ConnectionError)\<rparr>"

text \<open>
  The artist registry snapshot with content \<open>content\<close> (\<open>None\<close>: the file is absent).
  Two documents parse: one without a \<^verbatim>\<open>registered_count\<close> row, one with it.
\<close>

definition artist_example :: "string option \<Rightarrow> sample_float env" where
  "artist_example content =
     \<lparr>lib = sample_lib []
        [(''indicator,value;music,40'',
          \<lparr>df_columns = [''indicator'', ''value''],
           df_rows = [[CStr ''music'', CInt 40]]\<rparr>),
         (''indicator,value;registered_count,125;music,40;visual,35'',
          \<lparr>df_columns = [''indicator'', ''value''],
           df_rows = [[CStr ''registered_count'', CInt 125],
                      [CStr ''music'', CInt 40],
                      [CStr ''visual'', CInt 35]]\<rparr>)],
      files = (\<lambda>p. if p = ''data/fallback_artists.csv'' then content else None),
      http_get = (\<lambda>url t. Inl ConnectionError)\<rparr>"


section \<open>The TTL cache around the loaders\<close>

text \<open>
  Modelled from the spec: the cache behind \<^verbatim>\<open>@st.cache_data(ttl=...)\<close> is Streamlit's,
  and its code is not part of the repository. The entry, the rule of service and
  \<open>getOrResolve\<close> follow sections 3 and 4.3 of the specification: an entry holds the
  last resolved value, the time it was resolved and the TTL that governs it; it is served
  only while \<open>now - resolved_at < ttl\<close>, and otherwise treated as absent; it is created on
  a successful resolution and overwritten by the next one; expiry is checked at access
  time. \<open>resolver_calls\<close> counts the invocations of the resolver function.
\<close>

record 'v cache_entry =
  entry_value :: 'v
  resolved_at :: int
  entry_ttl :: int

record 'v ttl_cache =
  entries :: "dataset \<Rightarrow> 'v cache_entry option"
  resolver_calls :: nat

definition entry_served :: "int \<Rightarrow> 'v cache_entry \<Rightarrow> bool" where
  "entry_served now e = (now - resolved_at e < entry_ttl e)"

definition resolve_and_store ::
  "int \<Rightarrow> dataset \<Rightarrow> (unit \<Rightarrow> exn + 'v) \<Rightarrow> 'v ttl_cache \<Rightarrow> (exn + 'v) \<times> 'v ttl_cache" where
  "resolve_and_store now d resolverFn c =
     (case resolverFn () of
        Inl e \<Rightarrow> (Inl e, c\<lparr>resolver_calls := resolver_calls c + 1\<rparr>)
      | Inr v \<Rightarrow>
          (Inr v,
           c\<lparr>entries := (entries c)(d \<mapsto> \<lparr>entry_value = v, resolved_at = now, entry_ttl = ttl d\<rparr>),
             resolver_calls := resolver_calls c + 1\<rparr>))"

definition getOrResolve ::
  "int \<Rightarrow> dataset \<Rightarrow> (unit \<Rightarrow> exn + 'v) \<Rightarrow> 'v ttl_cache \<Rightarrow> (exn + 'v) \<times> 'v ttl_cache" where
  "getOrResolve now d resolverFn c =
     (case entries c d of
        None \<Rightarrow> resolve_and_store now d resolverFn c
      | Some e \<Rightarrow>
          if entry_served now e then (Inr (entry_value e), c)
          else resolve_and_store now d resolverFn c)"

definition empty_cache :: "'v ttl_cache" where
  "empty_cache = \<lparr>entries = (\<lambda>d. None), resolver_calls = 0\<rparr>"

text \<open>
  A decorated loader called at time \<open>now\<close> in environment \<open>w\<close>: the resolver is the
  loader's body of the source, the TTL the one of its decorator.
\<close>

definition cached_load ::
  "'f env \<Rightarrow> int \<Rightarrow> dataset \<Rightarrow> 'f loaded ttl_cache \<Rightarrow> (exn + 'f loaded) \<times> 'f loaded ttl_cache" where
  "cached_load w now d c = getOrResolve now d (\<lambda>_. resolve w d) c"



section \<open>Properties of the refresh script\<close>

lemma fetch_unesco_data_run:
  "fetch_unesco_data data_dir w =
     (Inr (), w\<lparr>logged := logged w @
        Log INFO ''Fetching UNESCO data from https://data.gov.cz/some/generic/path/unesco.csv...'' #
        (case stat_fault w (os_path_join data_dir ''fallback_unesco.csv'') of
           Some e \<Rightarrow> [Log_exn ERROR ''Failed to update UNESCO data: '' e]
         | None \<Rightarrow>
             if fs w (os_path_join data_dir ''fallback_unesco.csv'') \<noteq> None
             then [Log INFO ''Local UNESCO file verified.'']
             else [Log WARNING ''No local UNESCO file found.''])\<rparr>)"
  by (simp add: fetch_unesco_data_def bindS_def try_exceptS_def dict_getitem_def DATA_URLS_def
      logger_log_def logger_error_def os_path_exists_def split: option.splits)

lemma fetch_economic_data_run:
  "fetch_economic_data data_dir w =
     (Inr (), w\<lparr>logged := logged w @
        [Log INFO ''Fetching Economic data from https://data.csu.gov.cz/api/katalog/v1/wages...'',
         Log INFO ''Economic data processing skipped (placeholder URL).'']\<rparr>)"
  by (simp add: fetch_economic_data_def bindS_def try_exceptS_def dict_getitem_def DATA_URLS_def
      logger_log_def)

lemma fetch_artist_data_run:
  "fetch_artist_data data_dir w =
     (Inr (), w\<lparr>logged := logged w @
        [Log INFO ''Fetching Artist data from https://docs.google.com/spreadsheets/d/e/2PACX-1vR_placeholder_id/pub?output=csv...'',
         Log INFO ''Artist data processing skipped (placeholder URL).'']\<rparr>)"
  by (simp add: fetch_artist_data_def bindS_def try_exceptS_def dict_getitem_def DATA_URLS_def
      logger_log_def)

text \<open>
  Claim C7. One run of \<open>update_all_data\<close> returns normally and runs the fetch of all three
  datasets, in the order UNESCO, economics, artists, whatever the first fetch met: the
  local UNESCO file found, not found, or an exception inside its \<^verbatim>\<open>try\<close> block (caught
  and logged as an error). The log of the run shows the three fetches and the final line.
\<close>

theorem update_all_data_runs_every_fetch:
  "update_all_data data_dir w =
     (Inr (), w\<lparr>logged := logged w @
        [Log INFO ''Starting daily data update...'',
         Log INFO ''Fetching UNESCO data from https://data.gov.cz/some/generic/path/unesco.csv...''] @
        (case stat_fault w (os_path_join data_dir ''fallback_unesco.csv'') of
           Some e \<Rightarrow> [Log_exn ERROR ''Failed to update UNESCO data: '' e]
         | None \<Rightarrow>
             if fs w (os_path_join data_dir ''fallback_unesco.csv'') \<noteq> None
             then [Log INFO ''Local UNESCO file verified.'']
             else [Log WARNING ''No local UNESCO file found.'']) @
        [Log INFO ''Fetching Economic data from https://data.csu.gov.cz/api/katalog/v1/wages...'',
         Log INFO ''Economic data processing skipped (placeholder URL).'',
         Log INFO ''Fetching Artist data from https://docs.google.com/spreadsheets/d/e/2PACX-1vR_placeholder_id/pub?output=csv...'',
         Log INFO ''Artist data processing skipped (placeholder URL).'',
         Log INFO ''Daily data update completed.'']\<rparr>)"
  by (simp add: update_all_data_def bindS_def logger_log_def fetch_unesco_data_run
      fetch_economic_data_run fetch_artist_data_run)

text \<open>
  Claim C5, as stated, fails. In \<open>refresh_example\<close> the economics source answers 200
  with a new document and the UNESCO source cannot be reached; after the run the
  economics snapshot still holds the old document, and the log holds neither an error
  for UNESCO nor an update for economics.
\<close>

theorem refresh_writes_nothing_counterexample:
  "live refresh_example ''https://data.csu.gov.cz/api/katalog/v1/wages'' 10
     = Inr \<lparr>status_code = 200, body_text = ''{avg_monthly_wage: 30000}''\<rparr>
   \<and> live refresh_example ''https://data.gov.cz/some/generic/path/unesco.csv'' 10
     = Inl ConnectionError
   \<and> fs (snd (update_all_data ''data'' refresh_example)) ''data/fallback_economics.json''
     = Some ''{avg_monthly_wage: 28500}''
   \<and> fs (snd (update_all_data ''data'' refresh_example)) ''data/fallback_economics.json''
     \<noteq> Some ''{avg_monthly_wage: 30000}''
   \<and> logged (snd (update_all_data ''data'' refresh_example)) =
       [Log INFO ''Starting daily data update...'',
        Log INFO ''Fetching UNESCO data from https://data.gov.cz/some/generic/path/unesco.csv...'',
        Log INFO ''Local UNESCO file verified.'',
        Log INFO ''Fetching Economic data from https://data.csu.gov.cz/api/katalog/v1/wages...'',
        Log INFO ''Economic data processing skipped (placeholder URL).'',
        Log INFO ''Fetching Artist data from https://docs.google.com/spreadsheets/d/e/2PACX-1vR_placeholder_id/pub?output=csv...'',
        Log INFO ''Artist data processing skipped (placeholder URL).'',
        Log INFO ''Daily data update completed.'']"
  by (simp add: update_all_data_def bindS_def logger_log_def fetch_unesco_data_run
      fetch_economic_data_run fetch_artist_data_run refresh_example_def os_path_join_def)

text \<open>
  Claim C5, amended. A refresh run makes no request and writes no file: whatever the
  live sources would answer, every snapshot file is after the run what it was before,
  and the run returns no result value, only log lines.
\<close>

theorem update_all_data_leaves_files:
  "fst (update_all_data data_dir w) = Inr ()
   \<and> fs (snd (update_all_data data_dir w)) = fs w
   \<and> fs (snd (update_all_data data_dir (w\<lparr>live := sources\<rparr>))) = fs w"
  by (simp add: update_all_data_def bindS_def logger_log_def fetch_unesco_data_run
      fetch_economic_data_run fetch_artist_data_run)

section \<open>Properties of the loaders\<close>

lemma load_economic_indicators_eq:
  "load_economic_indicators w = Inr (case economic_fallback w of Inl e \<Rightarrow> JNull | Inr v \<Rightarrow> v)"
  by (simp add: load_economic_indicators_def bindE_def try_except_def split: sum.splits)

lemma load_unesco_sites_eq:
  "load_unesco_sites w = Inr (case unesco_fallback w of Inl e \<Rightarrow> empty_df | Inr df \<Rightarrow> df)"
  by (simp add: load_unesco_sites_def nkod_probe_def bindE_def try_except_def split: sum.splits)

lemma load_budget_eq:
  "load_budget w year = Inr (case budget_body w year of Inl e \<Rightarrow> empty_df | Inr df \<Rightarrow> df)"
  by (simp add: load_budget_def try_except_def split: sum.splits)

lemma load_nameday_eq:
  "load_nameday w = Inr (case nameday_body w of Inl e \<Rightarrow> JNull | Inr v \<Rightarrow> v)"
  by (simp add: load_nameday_def try_except_def split: sum.splits)

lemma load_artist_status_eq:
  "load_artist_status w = Inr (case artist_body w of Inl e \<Rightarrow> None | Inr a \<Rightarrow> a)"
  by (simp add: load_artist_status_def artist_probe_def bindE_def try_except_def split: sum.splits)

text \<open>
  Claim C9. In every environment (files absent or unparsable, requests failing, columns
  or keys missing, values that do not convert) each of the five loaders returns a value
  and raises nothing: an exception of its fallback block becomes \<open>JNull\<close> (Python's
  \<^verbatim>\<open>None\<close>), the empty DataFrame, or \<open>None\<close> for the artist record; otherwise the loader
  returns what the block computed (for the name day, the name or the string Unknown).
\<close>

theorem loaders_never_raise:
  "load_economic_indicators w = Inr (case economic_fallback w of Inl e \<Rightarrow> JNull | Inr v \<Rightarrow> v)
   \<and> load_unesco_sites w = Inr (case unesco_fallback w of Inl e \<Rightarrow> empty_df | Inr df \<Rightarrow> df)
   \<and> load_budget w year = Inr (case budget_body w year of Inl e \<Rightarrow> empty_df | Inr df \<Rightarrow> df)
   \<and> load_artist_status w = Inr (case artist_body w of Inl e \<Rightarrow> None | Inr a \<Rightarrow> a)
   \<and> load_nameday w = Inr (case nameday_body w of Inl e \<Rightarrow> JNull | Inr v \<Rightarrow> v)"
  by (simp only: load_economic_indicators_eq load_unesco_sites_eq load_budget_eq
      load_artist_status_eq load_nameday_eq simp_thms)

text \<open>
  Claim C2. When the request to the statistics office fails (it raises, or the status is
  not 200) and the economics snapshot exists and parses, \<open>load_economic_indicators\<close>
  returns exactly the parsed snapshot. The other loaders make no request at all; the
  UNESCO loader likewise returns the parsed snapshot as it is.
\<close>

theorem economic_indicators_fall_back_to_snapshot:
  assumes "probe_failed (http_get w (CZSO_API_URL @ ''/sady/mzdy/ukazatele'') 3)"
    and "files w ''data/fallback_economics.json'' = Some txt"
    and "json_loads (lib w) txt = Inr v"
  shows "load_economic_indicators w = Inr v"
  using assms(2,3)
  by (simp add: load_economic_indicators_eq economic_fallback_def json_load_file_def
      open_read_def bindE_def)

theorem economic_indicators_fall_back_to_snapshot_witness:
  "probe_failed (http_get economics_example (CZSO_API_URL @ ''/sady/mzdy/ukazatele'') 3)
   \<and> files economics_example ''data/fallback_economics.json''
       = Some ''{avg_monthly_wage: 28500, culture_share_gdp: 1}''
   \<and> load_economic_indicators economics_example
       = Inr (JObj [(''avg_monthly_wage'', JInt 28500), (''culture_share_gdp'', JInt 1)])
   \<and> bindE (load_economic_indicators economics_example) (\<lambda>d. getitem_key d ''avg_monthly_wage'')
       = Inr (JInt 28500)"
proof -
  have p: "probe_failed (http_get economics_example (CZSO_API_URL @ ''/sady/mzdy/ukazatele'') 3)"
    by (simp add: economics_example_def probe_failed_def)
  have f: "files economics_example ''data/fallback_economics.json''
      = Some ''{avg_monthly_wage: 28500, culture_share_gdp: 1}''"
    by (simp add: economics_example_def)
  have j: "json_loads (lib economics_example) ''{avg_monthly_wage: 28500, culture_share_gdp: 1}''
      = Inr (JObj [(''avg_monthly_wage'', JInt 28500), (''culture_share_gdp'', JInt 1)])"
    by (simp add: economics_example_def sample_lib_def parse_table_def)
  from economic_indicators_fall_back_to_snapshot [OF p f j] p f
  show ?thesis by (simp add: bindE_def)
qed

lemma economic_indicators_any_probe:
  "files w ''data/fallback_economics.json'' = Some txt \<Longrightarrow> json_loads (lib w) txt = Inr v
     \<Longrightarrow> load_economic_indicators w = Inr v"
  by (simp add: load_economic_indicators_eq economic_fallback_def json_load_file_def
      open_read_def bindE_def)


text \<open>
  Claim C10. \<open>load_nameday\<close> (cached for 3600 seconds, request timeout 3, reading no
  file) returns \<open>JNull\<close> (Python's \<^verbatim>\<open>None\<close>) when the request raises, when the status
  is an error status (400 to 599), and when the body does not parse; the string Unknown
  when the body parses to the empty list; and the value under \<^verbatim>\<open>name\<close> of the first
  entry when the body parses to a non-empty list whose first entry has that key.
\<close>

theorem load_nameday_results:
  "ttl Nameday = 3600
   \<and> (http_get w ''https://svatky.adresa.info/json'' 3 = Inl e \<longrightarrow> load_nameday w = Inr JNull)
   \<and> (http_get w ''https://svatky.adresa.info/json'' 3 = Inr r \<longrightarrow>
        (400 \<le> status_code r \<and> status_code r < 600 \<longrightarrow> load_nameday w = Inr JNull)
      \<and> (\<not> (400 \<le> status_code r \<and> status_code r < 600) \<longrightarrow>
           (json_loads (lib w) (body_text r) = Inl e' \<longrightarrow> load_nameday w = Inr JNull)
         \<and> (json_loads (lib w) (body_text r) = Inr (JArr []) \<longrightarrow>
              load_nameday w = Inr (JStr ''Unknown''))
         \<and> (json_loads (lib w) (body_text r) = Inr (JArr (JObj kvs # rest))
              \<and> map_of kvs ''name'' = Some n \<longrightarrow> load_nameday w = Inr n)))
   \<and> load_nameday (w\<lparr>files := other_files\<rparr>) = load_nameday w"
  by (simp add: load_nameday_eq nameday_body_def bindE_def raise_for_status_def
      response_json_def)

theorem load_nameday_results_witness:
  "load_nameday (nameday_example (Inr \<lparr>status_code = 200, body_text = ''[{date: 2112, name: Natalie}]''\<rparr>))
     = Inr (JStr ''Natalie'')
   \<and> load_nameday (nameday_example (Inr \<lparr>status_code = 200, body_text = ''[]''\<rparr>))
     = Inr (JStr ''Unknown'')
   \<and> load_nameday (nameday_example (Inr \<lparr>status_code = 200, body_text = ''<html>''\<rparr>))
     = Inr JNull
   \<and> load_nameday (nameday_example (Inr \<lparr>status_code = 404, body_text = ''[]''\<rparr>))
     = Inr JNull
   \<and> load_nameday (nameday_example (Inl Timeout)) = Inr JNull"
proof -
  have a: "load_nameday (nameday_example (Inr \<lparr>status_code = 200, body_text = ''[{date: 2112, name: Natalie}]''\<rparr>))
      = Inr (JStr ''Natalie'')"
    using load_nameday_results
      [where w = "nameday_example (Inr \<lparr>status_code = 200, body_text = ''[{date: 2112, name: Natalie}]''\<rparr>)"
         and r = "\<lparr>status_code = 200, body_text = ''[{date: 2112, name: Natalie}]''\<rparr>"
         and kvs = "[(''date'', JStr ''2112''), (''name'', JStr ''Natalie'')]"
         and rest = "[]" and n = "JStr ''Natalie''" and e = Timeout and e' = JSONDecodeError
         and other_files = Map.empty]
    by (simp add: nameday_example_def sample_lib_def parse_table_def)
  have b: "load_nameday (nameday_example (Inr \<lparr>status_code = 200, body_text = ''[]''\<rparr>))
      = Inr (JStr ''Unknown'')"
    using load_nameday_results
      [where w = "nameday_example (Inr \<lparr>status_code = 200, body_text = ''[]''\<rparr>)"
         and r = "\<lparr>status_code = 200, body_text = ''[]''\<rparr>"
         and kvs = "[]" and rest = "[]" and n = JNull and e = Timeout and e' = JSONDecodeError
         and other_files = Map.empty]
    by (simp add: nameday_example_def sample_lib_def parse_table_def)
  have c: "load_nameday (nameday_example (Inr \<lparr>status_code = 200, body_text = ''<html>''\<rparr>))
      = Inr JNull"
    using load_nameday_results
      [where w = "nameday_example (Inr \<lparr>status_code = 200, body_text = ''<html>''\<rparr>)"
         and r = "\<lparr>status_code = 200, body_text = ''<html>''\<rparr>"
         and kvs = "[]" and rest = "[]" and n = JNull and e = Timeout and e' = JSONDecodeError
         and other_files = Map.empty]
    by (simp add: nameday_example_def sample_lib_def parse_table_def)
  have d: "load_nameday (nameday_example (Inr \<lparr>status_code = 404, body_text = ''[]''\<rparr>))
      = Inr JNull"
    using load_nameday_results
      [where w = "nameday_example (Inr \<lparr>status_code = 404, body_text = ''[]''\<rparr>)"
         and r = "\<lparr>status_code = 404, body_text = ''[]''\<rparr>"
         and kvs = "[]" and rest = "[]" and n = JNull and e = Timeout and e' = JSONDecodeError
         and other_files = Map.empty]
    by (simp add: nameday_example_def sample_lib_def parse_table_def)
  have e: "load_nameday (nameday_example (Inl Timeout)) = Inr JNull"
    using load_nameday_results
      [where w = "nameday_example (Inl Timeout)"
         and r = "\<lparr>status_code = 200, body_text = ''[]''\<rparr>"
         and kvs = "[]" and rest = "[]" and n = JNull and e = Timeout and e' = JSONDecodeError
         and other_files = Map.empty]
    by (simp add: nameday_example_def sample_lib_def parse_table_def)
  from a b c d e show ?thesis by simp
qed

lemma row_cell_wf:
  "length r = length cols \<Longrightarrow> c \<in> set cols \<Longrightarrow> \<exists>v. row_cell cols r c = Some v"
  by (metis row_cell_def map_of_zip_is_None not_Some_eq)

lemma discipline_step_total:
  "row_cell cols row ''indicator'' = Some v \<Longrightarrow> \<exists>d'. discipline_step l cols d row = Inr d'"
  by (simp add: discipline_step_def row_getitem_def bindE_def try_except_def split: sum.splits)

lemma disciplines_loop_total:
  "\<forall>r \<in> set rows. length r = length cols \<Longrightarrow> ''indicator'' \<in> set cols
     \<Longrightarrow> \<exists>ds. foldE (discipline_step l cols) rows d = Inr ds"
proof (induction rows arbitrary: d)
  case Nil
  then show ?case by simp
next
  case (Cons r rows)
  then obtain v where "row_cell cols r ''indicator'' = Some v"
    using row_cell_wf by (metis list.set_intros(1))
  then obtain d' where "discipline_step l cols d r = Inr d'"
    using discipline_step_total by blast
  with Cons show ?case by simp
qed

text \<open>
  Claim C1, as stated, fails. The snapshot \<^verbatim>\<open>indicator,value / music,40\<close> has no
  \<^verbatim>\<open>registered_count\<close> row; \<open>load_artist_status\<close> returns a record all the same, with
  \<open>registered_count\<close> set to 0 by the \<^verbatim>\<open>else\<close> branch of the source.
\<close>

theorem artist_count_defaults_to_zero_counterexample:
  "csv_parse (lib (artist_example (Some ''indicator,value;music,40''))) ''indicator,value;music,40''
     = Inr \<lparr>df_columns = [''indicator'', ''value''], df_rows = [[CStr ''music'', CInt 40]]\<rparr>
   \<and> load_artist_status (artist_example (Some ''indicator,value;music,40''))
     = Inr (Some \<lparr>registered_count = 0, disciplines = [(CStr ''music'', Whole 40)]\<rparr>)"
  by (simp add: load_artist_status_eq artist_body_def artist_example_def sample_lib_def
      parse_table_def pd_read_csv_def open_read_def bindE_def df_where_def row_matches_def
      row_cell_def registered_count_of_def df_empty_def discipline_step_def row_getitem_def
      try_except_def)

text \<open>
  Claim C1, amended. When the artist snapshot file is absent or does not parse,
  \<open>load_artist_status\<close> returns \<open>None\<close>, never a record. When it parses to a frame with an
  \<^verbatim>\<open>indicator\<close> column: with no \<^verbatim>\<open>registered_count\<close> row the loader returns a record
  whose \<open>registered_count\<close> is 0; with such a row it returns a record whose
  \<open>registered_count\<close> is \<^verbatim>\<open>int\<close> of the first such row's \<^verbatim>\<open>value\<close>, and \<open>None\<close> when that
  value is missing or does not convert.
\<close>

theorem artist_status_none_or_counted:
  "(files w ''data/fallback_artists.csv'' = None \<longrightarrow> load_artist_status w = Inr None)
   \<and> (files w ''data/fallback_artists.csv'' = Some doc \<and> csv_parse (lib w) doc = Inl e
        \<longrightarrow> load_artist_status w = Inr None)
   \<and> (files w ''data/fallback_artists.csv'' = Some doc \<and> csv_parse (lib w) doc = Inr df
        \<and> ''indicator'' \<in> set (df_columns df)
        \<and> (\<forall>r \<in> set (df_rows df). length r = length (df_columns df))
        \<longrightarrow> (case filter (row_matches (df_columns df) ''indicator''
                           (\<lambda>v. cell_eq_str v ''registered_count'')) (df_rows df) of
               [] \<Rightarrow> \<exists>ds. load_artist_status w
                           = Inr (Some \<lparr>registered_count = 0, disciplines = ds\<rparr>)
             | r # _ \<Rightarrow>
                 (case bindE (row_getitem (df_columns df) r ''value'') (py_int (lib w)) of
                    Inl e \<Rightarrow> load_artist_status w = Inr None
                  | Inr n \<Rightarrow> \<exists>ds. load_artist_status w
                               = Inr (Some \<lparr>registered_count = n, disciplines = ds\<rparr>))))"
proof (intro conjI impI)
  assume "files w ''data/fallback_artists.csv'' = None"
  then show "load_artist_status w = Inr None"
    by (simp add: load_artist_status_eq artist_body_def pd_read_csv_def open_read_def bindE_def)
next
  assume "files w ''data/fallback_artists.csv'' = Some doc \<and> csv_parse (lib w) doc = Inl e"
  then show "load_artist_status w = Inr None"
    by (simp add: load_artist_status_eq artist_body_def pd_read_csv_def open_read_def bindE_def)
next
  assume a: "files w ''data/fallback_artists.csv'' = Some doc \<and> csv_parse (lib w) doc = Inr df
        \<and> ''indicator'' \<in> set (df_columns df)
        \<and> (\<forall>r \<in> set (df_rows df). length r = length (df_columns df))"
  then obtain ds where ds: "foldE (discipline_step (lib w) (df_columns df)) (df_rows df) [] = Inr ds"
    using disciplines_loop_total by blast
  from a have cols: "df_columns df \<noteq> []" by auto
  show "case filter (row_matches (df_columns df) ''indicator''
                           (\<lambda>v. cell_eq_str v ''registered_count'')) (df_rows df) of
               [] \<Rightarrow> \<exists>ds. load_artist_status w
                           = Inr (Some \<lparr>registered_count = 0, disciplines = ds\<rparr>)
             | r # _ \<Rightarrow>
                 (case bindE (row_getitem (df_columns df) r ''value'') (py_int (lib w)) of
                    Inl e \<Rightarrow> load_artist_status w = Inr None
                  | Inr n \<Rightarrow> \<exists>ds. load_artist_status w
                               = Inr (Some \<lparr>registered_count = n, disciplines = ds\<rparr>))"
    using a ds cols
    by (simp add: load_artist_status_eq artist_body_def pd_read_csv_def open_read_def bindE_def
        df_where_def registered_count_of_def df_empty_def split: list.splits sum.splits)
qed

theorem artist_status_none_or_counted_witness:
  "load_artist_status (artist_example None) = Inr None
   \<and> load_artist_status (artist_example (Some ''not a table'')) = Inr None
   \<and> (\<exists>ds. load_artist_status
               (artist_example (Some ''indicator,value;registered_count,125;music,40;visual,35''))
             = Inr (Some \<lparr>registered_count = 125, disciplines = ds\<rparr>))"
proof -
  have a: "load_artist_status (artist_example None) = Inr None"
    using artist_status_none_or_counted
      [where w = "artist_example None" and doc = "[]" and e = ParserError
         and df = empty_df]
    by (simp add: artist_example_def)
  have b: "load_artist_status (artist_example (Some ''not a table'')) = Inr None"
    using artist_status_none_or_counted
      [where w = "artist_example (Some ''not a table'')" and doc = "''not a table''"
         and e = ParserError and df = empty_df]
    by (simp add: artist_example_def sample_lib_def parse_table_def)
  have c: "\<exists>ds. load_artist_status
               (artist_example (Some ''indicator,value;registered_count,125;music,40;visual,35''))
             = Inr (Some \<lparr>registered_count = 125, disciplines = ds\<rparr>)"
    using artist_status_none_or_counted
      [where w = "artist_example (Some ''indicator,value;registered_count,125;music,40;visual,35'')"
         and doc = "''indicator,value;registered_count,125;music,40;visual,35''"
         and e = ParserError
         and df = "\<lparr>df_columns = [''indicator'', ''value''],
                    df_rows = [[CStr ''registered_count'', CInt 125],
                               [CStr ''music'', CInt 40],
                               [CStr ''visual'', CInt 35]]\<rparr>"]
    by (simp add: artist_example_def sample_lib_def parse_table_def row_matches_def
        row_cell_def row_getitem_def bindE_def)
  from a b c show ?thesis by simp
qed

section \<open>Properties of the start-up code\<close>

text \<open>
  Within one session the guard works: once \<^verbatim>\<open>scheduler_started\<close> is in the session's
  state, any number of further runs of that session leaves the process as it is.
\<close>

lemma app_startup_guarded:
  "map_of (session_state p sid) ''scheduler_started'' \<noteq> None \<Longrightarrow> app_startup sid p = p"
  by (auto simp: app_startup_def)

lemma rerun_same_session_keeps_schedulers:
  "map_of (session_state p sid) ''scheduler_started'' \<noteq> None
     \<Longrightarrow> run_scripts (replicate n sid) p = p"
  by (induction n) (simp_all add: app_startup_guarded)

lemma one_session_one_scheduler:
  "schedulers (run_scripts (replicate (Suc n) sid) fresh_process)
     = [\<lparr>jobs = [(''update_all_data'', 6, 0)], running = True\<rparr>]"
proof -
  have "map_of (session_state (app_startup sid fresh_process) sid) ''scheduler_started'' \<noteq> None"
    by (simp add: app_startup_def init_scheduler_def fresh_process_def Let_def)
  then have "run_scripts (replicate n sid) (app_startup sid fresh_process)
      = app_startup sid fresh_process"
    by (rule rerun_same_session_keeps_schedulers)
  then show ?thesis
    by (simp add: app_startup_def init_scheduler_def fresh_process_def Let_def)
qed

text \<open>
  Claim C3 does not hold of the code. The guard reads \<^verbatim>\<open>st.session_state\<close>, which is
  kept per session: when a second session runs the script in the same process,
  \<open>init_scheduler\<close> runs again and a second scheduler with the same 06:00 job is started.
  Here session 1 runs the script twice, then session 2 once.
\<close>

theorem second_session_starts_second_scheduler:
  "schedulers (run_scripts [1, 1, 2] fresh_process)
     = [\<lparr>jobs = [(''update_all_data'', 6, 0)], running = True\<rparr>,
        \<lparr>jobs = [(''update_all_data'', 6, 0)], running = True\<rparr>]
   \<and> atexit_hooks (run_scripts [1, 1, 2] fresh_process) = [0, 1]"
  by (simp add: app_startup_def init_scheduler_def fresh_process_def Let_def)

section \<open>Properties of the budget module\<close>

lemma those_eq_Some: "those xs = Some ys \<longleftrightarrow> xs = map Some ys"
proof (induction xs arbitrary: ys)
  case Nil
  then show ?case by auto
next
  case (Cons x xs)
  then show ?case by (cases x) (auto split: option.splits)
qed




section \<open>Properties of the cached loaders\<close>

lemma resolve_returns: "\<exists>v. resolve w d = Inr v"
  by (cases d)
    (simp_all add: load_economic_indicators_eq load_unesco_sites_eq load_budget_eq
      load_nameday_eq load_artist_status_eq bindE_def)

lemma cached_load_hit:
  "entries c d = Some e \<Longrightarrow> entry_served now e \<Longrightarrow> cached_load w now d c = (Inr (entry_value e), c)"
  by (simp add: cached_load_def getOrResolve_def)

lemma cached_load_miss:
  "entries c d = None \<or> (\<exists>e. entries c d = Some e \<and> \<not> entry_served now e) \<Longrightarrow>
     resolve w d = Inr v \<Longrightarrow>
     cached_load w now d c =
       (Inr v, c\<lparr>entries := (entries c)(d \<mapsto> \<lparr>entry_value = v, resolved_at = now, entry_ttl = ttl d\<rparr>),
                  resolver_calls := resolver_calls c + 1\<rparr>)"
  by (auto simp: cached_load_def getOrResolve_def resolve_and_store_def)

text \<open>
  Claim C8. Let a first call at time \<open>t1\<close>, in environment \<open>w1\<close>, find no entry for the
  dataset. It runs the loader once and stores the value. A second call at \<open>t2\<close> with
  \<open>t2 - t1 < ttl d\<close> returns the very same value and leaves the cache, the counter of
  resolver runs included, as it was, whatever the environment \<open>w2\<close> has become. A second
  call with \<open>t2 - t1 \<ge> ttl d\<close> is answered as if there were no entry: the loader runs
  again, in \<open>w2\<close>. The TTLs are those of the decorators: 86400 for the economic
  indicators, 604800 for the UNESCO sites.
\<close>

theorem cached_load_within_ttl:
  assumes "entries c d = None"
    and "cached_load w1 t1 d c = (r1, c1)"
  shows "r1 = resolve w1 d
     \<and> resolver_calls c1 = resolver_calls c + 1
     \<and> (t2 - t1 < ttl d \<longrightarrow> cached_load w2 t2 d c1 = (r1, c1))
     \<and> (\<not> t2 - t1 < ttl d \<longrightarrow>
          fst (cached_load w2 t2 d c1) = resolve w2 d
          \<and> resolver_calls (snd (cached_load w2 t2 d c1)) = resolver_calls c + 2
          \<and> fst (cached_load w2 t2 d c1) = fst (cached_load w2 t2 d (c1\<lparr>entries := (entries c1)(d := None)\<rparr>)))
     \<and> ttl Economic_indicators = 86400 \<and> ttl Unesco_sites = 604800"
proof -
  obtain v where v: "resolve w1 d = Inr v"
    using resolve_returns by blast
  obtain v2 where v2: "resolve w2 d = Inr v2"
    using resolve_returns by blast
  let ?e = "\<lparr>entry_value = v, resolved_at = t1, entry_ttl = ttl d\<rparr>"
  have first: "cached_load w1 t1 d c =
      (Inr v, c\<lparr>entries := (entries c)(d \<mapsto> ?e), resolver_calls := resolver_calls c + 1\<rparr>)"
    using assms(1) v by (simp add: cached_load_miss)
  with assms(2) have r1: "r1 = Inr v"
    and c1: "c1 = c\<lparr>entries := (entries c)(d \<mapsto> ?e), resolver_calls := resolver_calls c + 1\<rparr>"
    by simp_all
  have e1: "entries c1 d = Some ?e"
    by (simp add: c1)
  have within: "t2 - t1 < ttl d \<longrightarrow> cached_load w2 t2 d c1 = (r1, c1)"
    using cached_load_hit [OF e1, of t2 w2] by (simp add: entry_served_def r1)
  have expired: "\<not> t2 - t1 < ttl d \<longrightarrow>
          fst (cached_load w2 t2 d c1) = resolve w2 d
          \<and> resolver_calls (snd (cached_load w2 t2 d c1)) = resolver_calls c + 2
          \<and> fst (cached_load w2 t2 d c1) = fst (cached_load w2 t2 d (c1\<lparr>entries := (entries c1)(d := None)\<rparr>))"
    using v2 by (simp add: cached_load_def getOrResolve_def resolve_and_store_def c1 entry_served_def)
  have a: "r1 = resolve w1 d"
    by (simp add: r1 v)
  have b: "resolver_calls c1 = resolver_calls c + 1"
    by (simp add: c1)
  have t: "ttl Economic_indicators = 86400 \<and> ttl Unesco_sites = 604800"
    by simp
  from a b within expired t show ?thesis by blast
qed

theorem cached_load_within_ttl_witness:
  "fst (cached_load economics_example 1000 Economic_indicators empty_cache)
     = Inr (Loaded_json (JObj [(''avg_monthly_wage'', JInt 28500), (''culture_share_gdp'', JInt 1)]))
   \<and> cached_load (economics_example\<lparr>files := Map.empty\<rparr>) 87399 Economic_indicators
         (snd (cached_load economics_example 1000 Economic_indicators empty_cache))
       = cached_load economics_example 1000 Economic_indicators empty_cache
   \<and> resolver_calls (snd (cached_load economics_example 1000 Economic_indicators empty_cache)) = 1
   \<and> fst (cached_load (economics_example\<lparr>files := Map.empty\<rparr>) 87400 Economic_indicators
         (snd (cached_load economics_example 1000 Economic_indicators empty_cache)))
       = Inr (Loaded_json JNull)
   \<and> resolver_calls (snd (cached_load (economics_example\<lparr>files := Map.empty\<rparr>) 87400
         Economic_indicators
         (snd (cached_load economics_example 1000 Economic_indicators empty_cache)))) = 2"
proof -
  let ?w2 = "economics_example\<lparr>files := Map.empty\<rparr>"
  let ?first = "cached_load economics_example 1000 Economic_indicators empty_cache"
  have e: "entries (empty_cache :: sample_float loaded ttl_cache) Economic_indicators = None"
    by (simp add: empty_cache_def)
  have p: "?first = (fst ?first, snd ?first)"
    by simp
  have r1: "resolve economics_example Economic_indicators
      = Inr (Loaded_json (JObj [(''avg_monthly_wage'', JInt 28500), (''culture_share_gdp'', JInt 1)]))"
    by (simp add: load_economic_indicators_eq economic_fallback_def json_load_file_def
        open_read_def bindE_def economics_example_def sample_lib_def parse_table_def)
  have r2: "resolve ?w2 Economic_indicators = Inr (Loaded_json JNull)"
    by (simp add: load_economic_indicators_eq economic_fallback_def json_load_file_def
        open_read_def bindE_def)
  have z: "resolver_calls (empty_cache :: sample_float loaded ttl_cache) = 0"
    by (simp add: empty_cache_def)
  note T = cached_load_within_ttl [OF e p]
  from T [of 87399 ?w2] T [of 87400 ?w2] r1 r2 z show ?thesis
    by (simp add: prod_eq_iff)
qed

section \<open>Properties of the table of top sites\<close>

lemma take_rows_Inr:
  "list_all (\<lambda>i. i < length xs) idx \<Longrightarrow> take_rows xs idx = Inr (map (nth xs) idx)"
  by (simp add: take_rows_def)

text \<open>
  The rows of the table are the rows at the first five positions the argsort returns
  for the visitors column. The positions are computed from that column alone.
\<close>

lemma top_sites_positions:
  assumes "df_select df [''name'', ''visitors_2024'', ''renovation_roi''] = Inr t"
    and "df_getitem t ''visitors_2024'' = Inr keys"
    and "argsort_desc l keys = Inr idx"
    and "list_all (\<lambda>i. i < length (df_rows t)) idx"
  shows "top_sites l df = Inr (t\<lparr>df_rows := map (nth (df_rows t)) (take 5 idx)\<rparr>)"
  using assms
  by (simp add: top_sites_def sort_values_desc_def df_head_def bindE_def take_rows_Inr take_map)


lemma df_getitem_cells:
  assumes "df_getitem t c = Inr vs"
  shows "c \<in> set (df_columns t) \<and> map (\<lambda>r. row_cell (df_columns t) r c) (df_rows t) = map Some vs"
  using assms
  by (auto simp: df_getitem_def those_eq_Some split: if_splits option.splits)


text \<open>
  Two snapshots with the same visitors column get the same positions, whatever their
  names and whatever the library's argsort does with equal keys. So if the names of two
  rows with equal visitors are exchanged, the table lists them in the other order of
  names: for every argsort one of the two snapshots is listed against the order of names.
\<close>

lemma top_sites_same_positions:
  assumes "df_select df1 [''name'', ''visitors_2024'', ''renovation_roi''] = Inr t1"
    and "df_select df2 [''name'', ''visitors_2024'', ''renovation_roi''] = Inr t2"
    and "df_getitem t1 ''visitors_2024'' = Inr keys"
    and "df_getitem t2 ''visitors_2024'' = Inr keys"
    and "argsort_desc l keys = Inr idx"
    and "list_all (\<lambda>i. i < length keys) idx"
  shows "top_sites l df1 = Inr (t1\<lparr>df_rows := map (nth (df_rows t1)) (take 5 idx)\<rparr>)
     \<and> top_sites l df2 = Inr (t2\<lparr>df_rows := map (nth (df_rows t2)) (take 5 idx)\<rparr>)"
proof -
  have "length (df_rows t1) = length keys"
    using df_getitem_cells [OF assms(3)] by (metis length_map)
  moreover have "length (df_rows t2) = length keys"
    using df_getitem_cells [OF assms(4)] by (metis length_map)
  ultimately show ?thesis
    using assms by (simp add: top_sites_positions)
qed




end
